theory Spec2Isabelle
  imports Complex_Main "HOL-Library.Signed_Division"
begin

section \<open>The cluster engine of 9volt\<close>

text \<open>
  A shallow embedding of the cluster package (director election, heartbeats, member
  monitoring). The package talks to three things it does not define: the coordination
  store client (the interface \<open>dal.IDal\<close>), the Go standard library (\<open>encoding/json\<close>,
  \<open>time\<close>, \<open>path\<close>) and the channels it is handed. They are modelled as follows.

  \<^item> The store client, the clock and the JSON codec are the fields of an environment
    record \<open>Env\<close> over an abstract world state \<open>'w\<close>: every method takes the world and
    returns its result with the next world, so a theorem holds for every
    implementation of the interface and every store.
  \<^item> Every call of a store method, every send on a channel and every entry of the event
    queue or the health surface is appended to a trace, in program order.
  \<^item> A Go \<open>error\<close> is its message (\<open>None\<close> is \<open>nil\<close>); a run-time panic and
    \<open>log.Fatalf\<close> are outcomes of their own.
  \<^item> Instants (\<open>time.Time\<close>) and durations (\<open>time.Duration\<close>) are integers in
    nanoseconds. \<open>Time.Sub\<close> is the exact difference and \<open>Duration.Seconds\<close> the
    exact quotient by \<open>10^9\<close>: the saturation of \<open>Sub\<close> at about 292 years and the
    rounding of \<open>float64\<close> are not modelled.
  \<^item> Debug, info and warning log lines have no effect on the program and are left out.
\<close>

subsection \<open>Constants\<close>

text \<open>
  Both groups of constants stand in one \<open>const\<close> block, so \<open>iota\<close> keeps counting
  across them.
\<close>

definition START :: int where "START = 0"
definition STOP :: int where "STOP = 1"
definition CREATE :: int where "CREATE = 2"
definition UPDATE :: int where "UPDATE = 3"
definition NOOP :: int where "NOOP = 4"

definition DIRECTOR_KEY :: string where "DIRECTOR_KEY = ''cluster/director''"

subsection \<open>Data\<close>

type_synonym error = string

record DirectorJSON =
  D_MemberID :: string
  D_LastUpdate :: int

record MemberJSON =
  M_MemberID :: string
  M_Hostname :: string
  M_ListenAddress :: string
  M_LastUpdated :: int
  M_Tags :: "string list"
  M_Version :: string
  M_SemVer :: string

text \<open>The fields of \<open>config.Config\<close> that the package reads.\<close>

record Config =
  HeartbeatInterval :: int
  HeartbeatTimeout :: int
  ListenAddress :: string
  Tags :: "string list"
  Version :: string
  SemVer :: string

text \<open>
  \<open>Cluster\<close>: the lock, the channels, the loopers and the store client are not data of
  the model (see above); \<open>Identifier\<close> is the field of the embedded \<open>base.Component\<close>.
\<close>

record Cluster =
  Config :: Config
  DirectorState :: bool
  MemberID :: string
  Hostname :: string
  Identifier :: string

text \<open>\<open>dal.SetOptions\<close>, with Go's zero values for the fields a literal leaves out.\<close>

record SetOptions =
  Dir :: bool
  TTLSec :: int
  PrevExist :: string
  CreateParents :: bool
  Depth :: int

datatype dal_call =
    Dal_Get string
  | Dal_KeyExists string
  | Dal_Delete string bool
  | Dal_Set string string "SetOptions option"
  | Dal_Refresh string int
  | Dal_UpdateDirectorState string string bool
  | Dal_CreateDirectorState string
  | Dal_NewWatcher string bool
  | Dal_WatcherNext

datatype ErrorType = ETCD_WATCHER_ERROR | ETCD_GENERIC_ERROR

text \<open>
  What the package does to the outside, in program order. \<open>Dal c err\<close> is a call of a
  store method together with the error it returned. \<open>Overwatch e src ty\<close> is the
  message \<open>{Error, Source, ErrorType}\<close> sent on \<open>OverwatchChan\<close>; \<open>EQ_Error\<close> is
  \<open>EQClient.AddWithErrorLog("error", msg)\<close>; \<open>Health_Write\<close> is \<open>Health.Write\<close>;
  \<open>Sleep\<close> is \<open>time.Sleep\<close>.
\<close>

datatype event =
    Dal dal_call "error option"
  | StateChan bool
  | DistributeChan bool
  | InitFinished bool
  | Overwatch string string ErrorType
  | EQ_Error string
  | Health_Write bool string
  | Sleep int

text \<open>
  The result of a function that returns an \<open>error\<close>: \<open>OK\<close> is \<open>nil\<close>, \<open>Panic\<close> is a
  run-time panic that unwinds through the callers.
\<close>

datatype result = OK | Error error | Panic

text \<open>
  \<open>client.Response\<close> of a watch, with the fields the package reads: the action and
  the node (a pointer: \<open>None\<close> is \<open>nil\<close>) with its key and directory flag.
\<close>

record Node =
  N_Key :: string
  N_Dir :: bool

record Response =
  Action :: string
  Node :: "Node option"

text \<open>
  The environment. \<open>dal_Get\<close> returns the pair \<open>(data, err)\<close> as Go does (its
  options argument is \<open>nil\<close> at the one place it is called);
  \<open>dal_KeyExists\<close> returns \<open>(exists, isDir, err)\<close>. \<open>json_Marshal_Director\<close> takes the
  pointer it is given (\<open>None\<close> is \<open>nil\<close>). \<open>Duration_String\<close> is \<open>Duration.String\<close> and
  \<open>fmt_Int\<close> the text \<open>%v\<close> prints for an \<open>int\<close>.
\<close>

record 'w Env =
  dal_Get :: "string \<Rightarrow> 'w \<Rightarrow> ((string \<rightharpoonup> string) \<times> error option) \<times> 'w"
  dal_IsKeyNotFound :: "error option \<Rightarrow> bool"
  dal_KeyExists :: "string \<Rightarrow> 'w \<Rightarrow> (bool \<times> bool \<times> error option) \<times> 'w"
  dal_Delete :: "string \<Rightarrow> bool \<Rightarrow> 'w \<Rightarrow> error option \<times> 'w"
  dal_Set :: "string \<Rightarrow> string \<Rightarrow> SetOptions option \<Rightarrow> 'w \<Rightarrow> error option \<times> 'w"
  dal_Refresh :: "string \<Rightarrow> int \<Rightarrow> 'w \<Rightarrow> error option \<times> 'w"
  dal_UpdateDirectorState :: "string \<Rightarrow> string \<Rightarrow> bool \<Rightarrow> 'w \<Rightarrow> error option \<times> 'w"
  dal_CreateDirectorState :: "string \<Rightarrow> 'w \<Rightarrow> error option \<times> 'w"
  watcher_Next :: "'w \<Rightarrow> (Response option \<times> error option) \<times> 'w"
  time_Now :: "'w \<Rightarrow> int \<times> 'w"
  json_Marshal_Director :: "DirectorJSON option \<Rightarrow> string \<times> error option"
  json_Unmarshal_Director :: "string \<Rightarrow> DirectorJSON \<times> error option"
  json_Marshal_Member :: "MemberJSON \<Rightarrow> string \<times> error option"
  Duration_String :: "int \<Rightarrow> string"
  fmt_Int :: "int \<Rightarrow> string"

text \<open>The state of a run: the cluster object, the world behind the environment, the trace.\<close>

record 'w Sys =
  cluster :: Cluster
  world :: 'w
  trace :: "event list"

definition emit :: "event \<Rightarrow> 'w Sys \<Rightarrow> 'w Sys" where
  "emit e s = s\<lparr>trace := trace s @ [e]\<rparr>"

text \<open>
  A call of a store method: the world moves on, and the call is recorded with the
  error it returned (\<open>err_of\<close> picks the error out of the method's results).
\<close>

definition dalcall ::
    "dal_call \<Rightarrow> ('r \<Rightarrow> error option) \<Rightarrow> ('w \<Rightarrow> 'r \<times> 'w) \<Rightarrow> 'w Sys \<Rightarrow> 'r \<times> 'w Sys" where
  "dalcall c err_of m s =
     (case m (world s) of
        (r, w') \<Rightarrow> (r, s\<lparr>world := w', trace := trace s @ [Dal c (err_of r)]\<rparr>))"

definition now :: "'w Env \<Rightarrow> 'w Sys \<Rightarrow> int \<times> 'w Sys" where
  "now env s = (case time_Now env (world s) of (t, w') \<Rightarrow> (t, s\<lparr>world := w'\<rparr>))"

subsection \<open>The role flag\<close>

definition amDirector :: "'w Sys \<Rightarrow> bool" where
  "amDirector s = DirectorState (cluster s)"

definition setDirectorState :: "bool \<Rightarrow> 'w Sys \<Rightarrow> 'w Sys" where
  "setDirectorState newState s =
     emit (StateChan newState) (s\<lparr>cluster := (cluster s)\<lparr>DirectorState := newState\<rparr>\<rparr>)"

subsection \<open>Observing the director record\<close>

definition no_director_entry :: error where
  "no_director_entry =
     ''Uhh, no '' @ [CHR 0x27] @ ''director'' @ [CHR 0x27] @ '' entry in map? Seems like a bug''"

definition getState :: "'w Env \<Rightarrow> 'w Sys \<Rightarrow> (DirectorJSON option \<times> error option) \<times> 'w Sys" where
  "getState env s =
     (case dalcall (Dal_Get DIRECTOR_KEY) snd (dal_Get env DIRECTOR_KEY) s of
        ((data, err), s1) \<Rightarrow>
          if dal_IsKeyNotFound env err then ((None, None), s1)
          else (case err of
            Some e \<Rightarrow> ((None, Some e), s1)
          | None \<Rightarrow>
              (case data DIRECTOR_KEY of
                None \<Rightarrow> ((None, Some no_director_entry), s1)
              | Some v \<Rightarrow>
                  (case json_Unmarshal_Director env v of
                    (directorJSON, Some e) \<Rightarrow>
                      ((None, Some (''Unable to unmarshal director JSON blob: '' @ e)), s1)
                  | (directorJSON, None) \<Rightarrow> ((Some directorJSON, None), s1)))))"

subsection \<open>Expiry\<close>

definition Second :: int where "Second = 1000000000"

definition Sub :: "int \<Rightarrow> int \<Rightarrow> int" where
  "Sub t u = t - u"

text \<open>
  \<open>Duration.Seconds\<close>: \<open>sec := d / Second; nsec := d % Second;
  return float64(sec) + float64(nsec)/1e9\<close>, with Go's truncating division and exact
  arithmetic in place of \<open>float64\<close>.
\<close>

definition Seconds :: "int \<Rightarrow> real" where
  "Seconds d = of_int (d sdiv Second) + of_int (d smod Second) / 1000000000"

definition isExpired :: "'w Env \<Rightarrow> int \<Rightarrow> 'w Sys \<Rightarrow> bool \<times> 'w Sys" where
  "isExpired env lastUpdated s =
     (case now env s of
        (t, s1) \<Rightarrow>
          (let delta = Sub t lastUpdated in
           if Seconds delta > Seconds (HeartbeatTimeout (Config (cluster s1)))
           then (True, s1) else (False, s1)))"

subsection \<open>The role state machine\<close>

definition updateState :: "'w Env \<Rightarrow> DirectorJSON option \<Rightarrow> int \<Rightarrow> 'w Sys \<Rightarrow> result \<times> 'w Sys" where
  "updateState env prevDirectorJSON etcdAction s =
     (if etcdAction \<noteq> CREATE \<and> etcdAction \<noteq> UPDATE
      then (Error (''Unrecognized etcdAction '' @ [CHR 0x27] @ fmt_Int env etcdAction
                     @ [CHR 0x27] @ '' (bug?)''), s)
      else
        (case now env s of
           (t, s1) \<Rightarrow>
             (let newDirectorJSON = \<lparr>D_MemberID = MemberID (cluster s1), D_LastUpdate = t\<rparr> in
              case json_Marshal_Director env (Some newDirectorJSON) of
                (data, Some e) \<Rightarrow>
                  (Error (''Unable to marshal new director state blob: '' @ e), s1)
              | (data, None) \<Rightarrow>
                  (case
                     (if etcdAction = UPDATE
                      then
                        (case json_Marshal_Director env prevDirectorJSON of
                           (prevData, Some marshalErr) \<Rightarrow> (None, s1)
                         | (prevData, None) \<Rightarrow>
                             (case dalcall (Dal_UpdateDirectorState data prevData False) id
                                     (dal_UpdateDirectorState env data prevData False) s1 of
                                (stateErr, s2) \<Rightarrow> (Some (stateErr, ''update''), s2)))
                      else
                        (case dalcall (Dal_CreateDirectorState data) id
                                (dal_CreateDirectorState env data) s1 of
                           (stateErr, s2) \<Rightarrow> (Some (stateErr, ''create''), s2)))
                   of
                     (None, s2) \<Rightarrow> (Panic, s2)
                   | (Some (Some e, actionVerb), s2) \<Rightarrow>
                       (Error (''Unable to '' @ actionVerb @ '' director state in dal: '' @ e), s2)
                   | (Some (None, actionVerb), s2) \<Rightarrow> (OK, s2)))))"

text \<open>
  In \<open>updateState\<close>, the branch for a failed marshal of the previous record formats
  \<open>err.Error()\<close>, where \<open>err\<close> is the error of the first marshal and is \<open>nil\<close> at that
  point: the call panics. That is the \<open>None\<close> of the inner case.
\<close>

definition changeState :: "'w Env \<Rightarrow> int \<Rightarrow> DirectorJSON option \<Rightarrow> int \<Rightarrow> 'w Sys \<Rightarrow> result \<times> 'w Sys" where
  "changeState env action prevDirectorJSON etcdAction s =
     (if action = START
      then
        (if etcdAction \<noteq> NOOP
         then
           (case updateState env prevDirectorJSON etcdAction s of
              (Error e, s1) \<Rightarrow> (Error (''Unable to update director state: '' @ e), s1)
            | (Panic, s1) \<Rightarrow> (Panic, s1)
            | (OK, s1) \<Rightarrow> (OK, setDirectorState True s1))
         else (OK, setDirectorState True s))
      else (OK, setDirectorState False s))"

definition handleState :: "'w Env \<Rightarrow> DirectorJSON option \<Rightarrow> 'w Sys \<Rightarrow> result \<times> 'w Sys" where
  "handleState env directorJSON s =
     (case directorJSON of
        None \<Rightarrow> changeState env START None CREATE s
      | Some d \<Rightarrow>
          if D_MemberID d = MemberID (cluster s) \<and> \<not> amDirector s
          then changeState env START (Some d) UPDATE s
          else if D_MemberID d \<noteq> MemberID (cluster s) \<and> amDirector s
          then changeState env STOP None NOOP s
          else if D_MemberID d \<noteq> MemberID (cluster s)
          then
            (case isExpired env (D_LastUpdate d) s of
               (True, s1) \<Rightarrow> changeState env START (Some d) UPDATE s1
             | (False, s1) \<Rightarrow> (OK, s1))
          else (OK, s))"

text \<open>
  One tick of the director monitor: the function \<open>runDirectorMonitor\<close> hands to its
  looper. It returns \<open>nil\<close> whatever happens, unless \<open>handleState\<close> panics.
\<close>

definition directorMonitorTick :: "'w Env \<Rightarrow> 'w Sys \<Rightarrow> result \<times> 'w Sys" where
  "directorMonitorTick env s =
     (case getState env s of
        ((directorJSON, Some e), s1) \<Rightarrow>
          (OK, emit (EQ_Error (Identifier (cluster s1)
                      @ ''-directorMonitor: Unable to fetch director state: '' @ e)) s1)
      | ((directorJSON, None), s1) \<Rightarrow>
          (case handleState env directorJSON s1 of
             (Error e, s2) \<Rightarrow>
               (OK, emit (EQ_Error (Identifier (cluster s2)
                           @ ''-directorMonitor: Unable to handle state: '' @ e)) s2)
           | (Panic, s2) \<Rightarrow> (Panic, s2)
           | (OK, s2) \<Rightarrow> (OK, s2)))"

subsection \<open>The director heartbeat\<close>

definition sendDirectorHeartbeat :: "'w Env \<Rightarrow> 'w Sys \<Rightarrow> error option \<times> 'w Sys" where
  "sendDirectorHeartbeat env s =
     (case now env s of
        (t, s1) \<Rightarrow>
          (let newDirectorJSON = \<lparr>D_MemberID = MemberID (cluster s1), D_LastUpdate = t\<rparr> in
           case json_Marshal_Director env (Some newDirectorJSON) of
             (data, Some e) \<Rightarrow> (Some (''Unable to marshal heartbeat blob: '' @ e), s1)
           | (data, None) \<Rightarrow>
               (case dalcall (Dal_UpdateDirectorState data [] True) id
                       (dal_UpdateDirectorState env data [] True) s1 of
                  (Some e, s2) \<Rightarrow> (Some (''Unable to update director heartbeat: '' @ e), s2)
                | (None, s2) \<Rightarrow> (None, s2))))"

text \<open>One tick of the director heartbeat: the function handed to the looper.\<close>

definition directorHeartbeatTick :: "'w Env \<Rightarrow> 'w Sys \<Rightarrow> 'w Sys" where
  "directorHeartbeatTick env s =
     (if \<not> amDirector s then s
      else
        (case sendDirectorHeartbeat env s of
           (Some e, s1) \<Rightarrow>
             emit (EQ_Error (Identifier (cluster s1) @ ''-directorHeartbeat: '' @ e)) s1
         | (None, s1) \<Rightarrow> s1))"

subsection \<open>The member monitor\<close>

text \<open>
  \<open>path.Base\<close> of the Go standard library: the empty path gives \<open>.\<close>; trailing slashes
  are stripped; what follows the last slash is returned, or \<open>/\<close> if nothing is left.
\<close>

definition path_Base :: "string \<Rightarrow> string" where
  "path_Base path =
     (if path = [] then ''.''
      else
        (let stripped = rev (dropWhile (\<lambda>ch. ch = CHR ''/'') (rev path));
             last_element = rev (takeWhile (\<lambda>ch. ch \<noteq> CHR ''/'') (rev stripped))
         in if last_element = [] then ''/'' else last_element))"

datatype loop = Continue | Break | Crash

text \<open>
  One iteration of the \<open>for\<close> loop of \<open>runMemberMonitor\<close>. \<open>Crash\<close> is the nil
  dereference of a response or node that the watcher did not fill in.
\<close>

definition memberMonitorIteration :: "'w Env \<Rightarrow> 'w Sys \<Rightarrow> loop \<times> 'w Sys" where
  "memberMonitorIteration env s =
     (if \<not> amDirector s
      then (Continue, emit (Sleep (HeartbeatInterval (Config (cluster s)))) s)
      else
        (case dalcall Dal_WatcherNext snd (watcher_Next env) s of
           ((resp, Some e), s1) \<Rightarrow>
             if e = ''context canceled'' then (Break, s1)
             else
               (Continue,
                emit (Overwatch (''Unexpected watcher error: '' @ e)
                        (Identifier (cluster s1) @ ''.runMemberMonitor'') ETCD_WATCHER_ERROR)
                  (emit (Health_Write False
                           (''Cluster engine watcher encountering errors: '' @ e))
                     (emit (EQ_Error (Identifier (cluster s1)
                              @ ''-runMemberMonitor: Unexpected watcher error: '' @ e)) s1)))
         | ((None, None), s1) \<Rightarrow> (Crash, s1)
         | ((Some r, None), s1) \<Rightarrow>
             if Action r = ''set''
             then
               (case Node r of
                  None \<Rightarrow> (Crash, s1)
                | Some n \<Rightarrow>
                    if \<not> N_Dir n \<or> path_Base (N_Key n) = ''config''
                    then (Continue, s1)
                    else (Continue, emit (DistributeChan True) s1))
             else if Action r = ''expire''
             then
               (case Node r of
                  None \<Rightarrow> (Crash, s1)
                | Some n \<Rightarrow> (Continue, emit (DistributeChan True) s1))
             else (Continue, s1)))"

subsection \<open>The member heartbeat\<close>

definition generateMemberJSON :: "'w Env \<Rightarrow> 'w Sys \<Rightarrow> (string \<times> error option) \<times> 'w Sys" where
  "generateMemberJSON env s =
     (case now env s of
        (t, s1) \<Rightarrow>
          (let memberJSON =
                 \<lparr>M_MemberID = MemberID (cluster s1),
                  M_Hostname = Hostname (cluster s1),
                  M_ListenAddress = ListenAddress (Config (cluster s1)),
                  M_LastUpdated = t,
                  M_Tags = Tags (Config (cluster s1)),
                  M_Version = Version (Config (cluster s1)),
                  M_SemVer = SemVer (Config (cluster s1))\<rparr> in
           case json_Marshal_Member env memberJSON of
             (data, Some e) \<Rightarrow> (([], Some (''Unable to marshal memberJSON: '' @ e)), s1)
           | (data, None) \<Rightarrow> ((data, None), s1)))"

definition createInitialMemberStructure ::
    "'w Env \<Rightarrow> string \<Rightarrow> int \<Rightarrow> 'w Sys \<Rightarrow> error option \<times> 'w Sys" where
  "createInitialMemberStructure env memberDir heartbeatTimeoutInt s =
     (case dalcall (Dal_KeyExists memberDir) (\<lambda>(exists, isDir, err). err) (dal_KeyExists env memberDir) s of
        ((exists, isDir, Some e), s1) \<Rightarrow>
          (Some (''Unable to verify pre-existence of member dir: '' @ e), s1)
      | ((exists, isDir, None), s1) \<Rightarrow>
          (case
             (if exists
              then dalcall (Dal_Delete memberDir True) id (dal_Delete env memberDir True) s1
              else (None, s1))
           of
             (Some e, s2) \<Rightarrow>
               (Some (''Unable to delete pre-existing member dir '' @ [CHR 0x27] @ memberDir
                        @ [CHR 0x27] @ '': '' @ e), s2)
           | (None, s2) \<Rightarrow>
               (let dirOptions =
                      Some \<lparr>Dir = True, TTLSec = heartbeatTimeoutInt, PrevExist = [],
                            CreateParents = False, Depth = 0\<rparr> in
                case dalcall (Dal_Set memberDir [] dirOptions) id
                       (dal_Set env memberDir [] dirOptions) s2 of
                  (Some e, s3) \<Rightarrow> (Some (''First member dir Set() failed: '' @ e), s3)
                | (None, s3) \<Rightarrow>
                    (case generateMemberJSON env s3 of
                       ((memberJSON, Some e), s4) \<Rightarrow>
                         (Some (''Unable to generate initial member JSON: '' @ e), s4)
                     | ((memberJSON, None), s4) \<Rightarrow>
                         (case dalcall (Dal_Set (memberDir @ ''/status'') memberJSON None) id
                                 (dal_Set env (memberDir @ ''/status'') memberJSON None) s4 of
                            (Some e, s5) \<Rightarrow> (Some (''Unable to create initial state: '' @ e), s5)
                          | (None, s5) \<Rightarrow>
                              (let configOptions =
                                     Some \<lparr>Dir = True, TTLSec = 0, PrevExist = [],
                                           CreateParents = False, Depth = 0\<rparr> in
                               case dalcall (Dal_Set (memberDir @ ''/config'') [] configOptions) id
                                      (dal_Set env (memberDir @ ''/config'') [] configOptions) s5 of
                                 (Some e, s6) \<Rightarrow>
                                   (Some (''Creating member config dir failed: '' @ e), s6)
                               | (None, s6) \<Rightarrow> (None, s6)))))))"

text \<open>The conversion \<open>int(x)\<close> of a \<open>float64\<close>: the fraction is discarded.\<close>

definition go_int :: "real \<Rightarrow> int" where
  "go_int x = (if 0 \<le> x then \<lfloor>x\<rfloor> else \<lceil>x\<rceil>)"

definition memberDir_of :: "Cluster \<Rightarrow> string" where
  "memberDir_of c = ''cluster/members/'' @ MemberID c"

definition heartbeatTimeoutInt_of :: "Cluster \<Rightarrow> int" where
  "heartbeatTimeoutInt_of c = go_int (Seconds (HeartbeatTimeout (Config c)))"



text \<open>
  One tick of the member heartbeat. The refresh runs in a goroutine of its own; the
  model runs it where it is started.
\<close>

definition memberHeartbeatTick :: "'w Env \<Rightarrow> string \<Rightarrow> int \<Rightarrow> 'w Sys \<Rightarrow> 'w Sys" where
  "memberHeartbeatTick env memberDir heartbeatTimeoutInt s =
     (let retry = '' (retrying in ''
                    @ Duration_String env (HeartbeatInterval (Config (cluster s))) @ ''): '' in
      case generateMemberJSON env s of
        ((memberJSON, Some e), s1) \<Rightarrow>
          emit (EQ_Error (Identifier (cluster s1)
                  @ ''-runMemberHeartbeat: Unable to generate member JSON'' @ retry @ e)) s1
      | ((memberJSON, None), s1) \<Rightarrow>
          (let statusOptions =
                 Some \<lparr>Dir = False, TTLSec = 0, PrevExist = [],
                       CreateParents = True, Depth = 1\<rparr> in
           case dalcall (Dal_Set (memberDir @ ''/status'') memberJSON statusOptions) id
                  (dal_Set env (memberDir @ ''/status'') memberJSON statusOptions) s1 of
             (Some e, s2) \<Rightarrow>
               emit (Overwatch (''Unable to save key to etcd: '' @ e)
                       (Identifier (cluster s2) @ ''.runMemberHeartbeat'') ETCD_GENERIC_ERROR)
                 (emit (Health_Write False
                          (''Cluster engine encountering etcd error(s) during set: '' @ e))
                    (emit (EQ_Error (Identifier (cluster s2)
                             @ ''-runMemberHeartbeat: Unable to save member JSON status''
                             @ retry @ e)) s2))
           | (None, s2) \<Rightarrow>
               (case dalcall (Dal_Refresh memberDir heartbeatTimeoutInt) id
                       (dal_Refresh env memberDir heartbeatTimeoutInt) s2 of
                  (Some e, s3) \<Rightarrow>
                    emit (Overwatch (''Unable to refresh key in etcd: '' @ e)
                            (Identifier (cluster s3) @ ''.runMemberHeartbeat'') ETCD_GENERIC_ERROR)
                      (emit (Health_Write False
                               (''Cluster engine encountering etcd error(s) during refresh: '' @ e))
                         (emit (EQ_Error (Identifier (cluster s3)
                                  @ ''-runMemberHeartbeat: Unable to refresh member dir ''
                                  @ [CHR 0x27] @ memberDir @ [CHR 0x27] @ retry @ e)) s3))
                | (None, s3) \<Rightarrow> s3)))"

subsection \<open>Start and the goroutines\<close>

text \<open>
  \<open>Start\<close> launches four goroutines and waits on \<open>initFinished\<close> (a channel of
  capacity one) in between. The process is modelled by the control point of each
  goroutine, the content of the channel and the shared state; a schedule names the
  goroutine that moves next. A goroutine that cannot move (not yet started, blocked on
  the channel, or the process has exited) has no step.
\<close>

datatype start_pc =
    S_go_directorMonitor
  | S_go_directorHeartbeat
  | S_go_memberHeartbeat
  | S_receive_initFinished
  | S_go_memberMonitor
  | S_returned

datatype heartbeat_pc = H_not_started | H_create | H_send_initFinished | H_loop

datatype monitor_pc = M_not_started | M_new_watcher | M_loop | M_exited

datatype thread =
    T_Start
  | T_directorMonitor
  | T_directorHeartbeat
  | T_memberHeartbeat
  | T_memberMonitor

record 'w Proc =
  sys :: "'w Sys"
  pc_Start :: start_pc
  pc_memberHeartbeat :: heartbeat_pc
  pc_memberMonitor :: monitor_pc
  directorMonitor_started :: bool
  directorHeartbeat_started :: bool
  initFinished :: "bool list"
  exited :: bool

definition step_Start :: "'w Proc \<Rightarrow> 'w Proc option" where
  "step_Start p =
     (case pc_Start p of
        S_go_directorMonitor \<Rightarrow>
          Some (p\<lparr>directorMonitor_started := True, pc_Start := S_go_directorHeartbeat\<rparr>)
      | S_go_directorHeartbeat \<Rightarrow>
          Some (p\<lparr>directorHeartbeat_started := True, pc_Start := S_go_memberHeartbeat\<rparr>)
      | S_go_memberHeartbeat \<Rightarrow>
          Some (p\<lparr>pc_memberHeartbeat := H_create, pc_Start := S_receive_initFinished\<rparr>)
      | S_receive_initFinished \<Rightarrow>
          (case initFinished p of
             [] \<Rightarrow> None
           | v # rest \<Rightarrow> Some (p\<lparr>initFinished := rest, pc_Start := S_go_memberMonitor\<rparr>))
      | S_go_memberMonitor \<Rightarrow>
          Some (p\<lparr>pc_memberMonitor := M_new_watcher, pc_Start := S_returned\<rparr>)
      | S_returned \<Rightarrow> None)"

definition step_memberHeartbeat :: "'w Env \<Rightarrow> 'w Proc \<Rightarrow> 'w Proc option" where
  "step_memberHeartbeat env p =
     (let memberDir = memberDir_of (cluster (sys p));
          heartbeatTimeoutInt = heartbeatTimeoutInt_of (cluster (sys p)) in
      case pc_memberHeartbeat p of
        H_not_started \<Rightarrow> None
      | H_create \<Rightarrow>
          (case createInitialMemberStructure env memberDir heartbeatTimeoutInt (sys p) of
             (Some e, s1) \<Rightarrow> Some (p\<lparr>sys := s1, exited := True\<rparr>)
           | (None, s1) \<Rightarrow> Some (p\<lparr>sys := s1, pc_memberHeartbeat := H_send_initFinished\<rparr>))
      | H_send_initFinished \<Rightarrow>
          if length (initFinished p) < 1
          then Some (p\<lparr>sys := emit (InitFinished True) (sys p),
                        initFinished := initFinished p @ [True],
                        pc_memberHeartbeat := H_loop\<rparr>)
          else None
      | H_loop \<Rightarrow>
          Some (p\<lparr>sys := memberHeartbeatTick env memberDir heartbeatTimeoutInt (sys p)\<rparr>))"

definition step_memberMonitor :: "'w Env \<Rightarrow> 'w Proc \<Rightarrow> 'w Proc option" where
  "step_memberMonitor env p =
     (case pc_memberMonitor p of
        M_not_started \<Rightarrow> None
      | M_new_watcher \<Rightarrow>
          Some (p\<lparr>sys := emit (Dal (Dal_NewWatcher ''cluster/members/'' True) None) (sys p),
                  pc_memberMonitor := M_loop\<rparr>)
      | M_loop \<Rightarrow>
          (case memberMonitorIteration env (sys p) of
             (Continue, s1) \<Rightarrow> Some (p\<lparr>sys := s1\<rparr>)
           | (Break, s1) \<Rightarrow> Some (p\<lparr>sys := s1, pc_memberMonitor := M_exited\<rparr>)
           | (Crash, s1) \<Rightarrow> Some (p\<lparr>sys := s1, exited := True\<rparr>))
      | M_exited \<Rightarrow> None)"

definition step_directorMonitor :: "'w Env \<Rightarrow> 'w Proc \<Rightarrow> 'w Proc option" where
  "step_directorMonitor env p =
     (if directorMonitor_started p
      then
        (case directorMonitorTick env (sys p) of
           (Panic, s1) \<Rightarrow> Some (p\<lparr>sys := s1, exited := True\<rparr>)
         | (r, s1) \<Rightarrow> Some (p\<lparr>sys := s1\<rparr>))
      else None)"

definition step_directorHeartbeat :: "'w Env \<Rightarrow> 'w Proc \<Rightarrow> 'w Proc option" where
  "step_directorHeartbeat env p =
     (if directorHeartbeat_started p
      then Some (p\<lparr>sys := directorHeartbeatTick env (sys p)\<rparr>)
      else None)"

definition step :: "'w Env \<Rightarrow> thread \<Rightarrow> 'w Proc \<Rightarrow> 'w Proc option" where
  "step env t p =
     (if exited p then None
      else
        (case t of
           T_Start \<Rightarrow> step_Start p
         | T_directorMonitor \<Rightarrow> step_directorMonitor env p
         | T_directorHeartbeat \<Rightarrow> step_directorHeartbeat env p
         | T_memberHeartbeat \<Rightarrow> step_memberHeartbeat env p
         | T_memberMonitor \<Rightarrow> step_memberMonitor env p))"

text \<open>
  The states a schedule visits, the first state included; a goroutine that has no step
  when it is chosen leaves the state as it is.
\<close>

fun run :: "'w Env \<Rightarrow> thread list \<Rightarrow> 'w Proc \<Rightarrow> 'w Proc list" where
  "run env [] p = [p]"
| "run env (t # ts) p =
     p # run env ts (case step env t p of None \<Rightarrow> p | Some p' \<Rightarrow> p')"

text \<open>The process when \<open>Start\<close> is entered: nothing launched, the channel empty.\<close>

definition initial :: "'w Proc \<Rightarrow> bool" where
  "initial p \<longleftrightarrow>
     pc_Start p = S_go_directorMonitor \<and> pc_memberHeartbeat p = H_not_started \<and>
     pc_memberMonitor p = M_not_started \<and> \<not> directorMonitor_started p \<and>
     \<not> directorHeartbeat_started p \<and> initFinished p = [] \<and> \<not> exited p"

text \<open>
  At position \<open>i\<close> of a list of states, \<open>createInitialMemberStructure\<close> is called and
  returns \<open>nil\<close>.
\<close>

definition creation_completes_at :: "'w Env \<Rightarrow> 'w Proc list \<Rightarrow> nat \<Rightarrow> bool" where
  "creation_completes_at env ps i \<longleftrightarrow>
     Suc i < length ps \<and> pc_memberHeartbeat (ps ! i) = H_create \<and>
     pc_memberHeartbeat (ps ! Suc i) = H_send_initFinished \<and>
     createInitialMemberStructure env (memberDir_of (cluster (sys (ps ! i))))
         (heartbeatTimeoutInt_of (cluster (sys (ps ! i)))) (sys (ps ! i))
       = (None, sys (ps ! Suc i))"

subsection \<open>Reading a trace\<close>

text \<open>The store calls of a trace with the errors they returned, in order.\<close>

fun dal_calls :: "event list \<Rightarrow> (dal_call \<times> error option) list" where
  "dal_calls [] = []"
| "dal_calls (Dal c r # es) = (c, r) # dal_calls es"
| "dal_calls (e # es) = dal_calls es"

text \<open>The calls that write \<open>cluster/director\<close>.\<close>

fun is_director_write :: "dal_call \<Rightarrow> bool" where
  "is_director_write (Dal_UpdateDirectorState data prevData force) = True"
| "is_director_write (Dal_CreateDirectorState data) = True"
| "is_director_write c = False"

definition director_writes :: "event list \<Rightarrow> dal_call list" where
  "director_writes tr = filter is_director_write (map fst (dal_calls tr))"


subsection \<open>A store double\<close>

text \<open>
  An environment for concrete runs, as a test of the package would build it: the
  store answers \<open>Get\<close> with \<open>get_reply\<close>, \<open>KeyExists\<close> with \<open>exists\<close>, a watch with
  \<open>watch_reply\<close> and every other call with the error \<open>reply\<close> gives for it; the clock
  advances by one nanosecond per reading; the codec writes a record as its member id
  alone and reads every time as 0.
\<close>

definition double ::
    "((string \<rightharpoonup> string) \<times> error option) \<Rightarrow> bool \<Rightarrow> (dal_call \<Rightarrow> error option)
       \<Rightarrow> (Response option \<times> error option) \<Rightarrow> int Env" where
  "double get_reply exists reply watch_reply =
     \<lparr>dal_Get = (\<lambda>key w. (get_reply, w)),
      dal_IsKeyNotFound = (\<lambda>err. err = Some ''100: Key not found''),
      dal_KeyExists = (\<lambda>key w. ((exists, True, reply (Dal_KeyExists key)), w)),
      dal_Delete = (\<lambda>key recursive w. (reply (Dal_Delete key recursive), w)),
      dal_Set = (\<lambda>key val opts w. (reply (Dal_Set key val opts), w)),
      dal_Refresh = (\<lambda>key ttl w. (reply (Dal_Refresh key ttl), w)),
      dal_UpdateDirectorState =
        (\<lambda>data prev force w. (reply (Dal_UpdateDirectorState data prev force), w)),
      dal_CreateDirectorState = (\<lambda>data w. (reply (Dal_CreateDirectorState data), w)),
      watcher_Next = (\<lambda>w. (watch_reply, w)),
      time_Now = (\<lambda>w. (w, w + 1)),
      json_Marshal_Director =
        (\<lambda>d. (case d of None \<Rightarrow> ''null'' | Some r \<Rightarrow> D_MemberID r, None)),
      json_Unmarshal_Director = (\<lambda>b. (\<lparr>D_MemberID = b, D_LastUpdate = 0\<rparr>, None)),
      json_Marshal_Member = (\<lambda>m. (M_MemberID m, None)),
      Duration_String = (\<lambda>d. ''1s''),
      fmt_Int = (\<lambda>i. ''?'')\<rparr>"

text \<open>The store double that accepts everything and holds no director record.\<close>

definition quiet :: "int Env" where
  "quiet = double (Map.empty, Some ''100: Key not found'') False (\<lambda>c. None) (None, None)"

text \<open>
  Node \<open>A\<close> with the intervals of the end-to-end scenarios (one second, five seconds),
  not director, ten seconds into the clock, with an empty trace.
\<close>

definition node_A :: "int Sys" where
  "node_A =
     \<lparr>cluster =
        \<lparr>Config =
           \<lparr>HeartbeatInterval = 1000000000, HeartbeatTimeout = 5000000000,
            ListenAddress = ''0.0.0.0:8080'', Tags = [], Version = ''N/A'',
            SemVer = ''N/A''\<rparr>,
         DirectorState = False, MemberID = ''A'', Hostname = ''host'',
         Identifier = ''cluster''\<rparr>,
      world = 10000000000, trace = []\<rparr>"

definition director_A :: "int Sys" where
  "director_A = node_A\<lparr>cluster := (cluster node_A)\<lparr>DirectorState := True\<rparr>\<rparr>"

text \<open>
  The store double that answers every call with an error; its \<open>Get\<close> succeeds with a
  map that has no entry.
\<close>

definition rejecting :: "int Env" where
  "rejecting =
     double (Map.empty, None) True (\<lambda>c. Some ''105: Key already exists'') (None, None)"


text \<open>The store double whose watch delivers the response \<open>r\<close>.\<close>

definition watching :: "Response \<Rightarrow> int Env" where
  "watching r =
     double (Map.empty, Some ''100: Key not found'') False (\<lambda>c. None) (Some r, None)"


text \<open>
  What the control points of a process say about the launch order: while \<open>Start\<close> has
  not launched the member heartbeat, that heartbeat has not begun and the channel is
  empty; a value in the channel, and \<open>Start\<close> past its receive, mean the heartbeat has
  sent and so is in its loop; the member monitor runs only once \<open>Start\<close> has returned.
\<close>

definition launch_order :: "'w Proc \<Rightarrow> bool" where
  "launch_order p \<longleftrightarrow>
     (pc_Start p \<in> {S_go_directorMonitor, S_go_directorHeartbeat, S_go_memberHeartbeat} \<longrightarrow>
        pc_memberHeartbeat p = H_not_started \<and> initFinished p = []) \<and>
     (initFinished p \<noteq> [] \<longrightarrow> pc_memberHeartbeat p = H_loop) \<and>
     (pc_Start p \<in> {S_go_memberMonitor, S_returned} \<longrightarrow> pc_memberHeartbeat p = H_loop) \<and>
     (pc_memberMonitor p \<noteq> M_not_started \<longrightarrow> pc_Start p = S_returned)"

text \<open>Node \<open>A\<close> as a process that enters \<open>Start\<close>, and two schedules for it.\<close>

definition boot :: "int Proc" where
  "boot =
     \<lparr>sys = node_A, pc_Start = S_go_directorMonitor, pc_memberHeartbeat = H_not_started,
      pc_memberMonitor = M_not_started, directorMonitor_started = False,
      directorHeartbeat_started = False, initFinished = [], exited = False\<rparr>"

definition orderly :: "thread list" where
  "orderly =
     [T_Start, T_Start, T_Start, T_memberHeartbeat, T_memberHeartbeat, T_Start, T_Start]"

definition eager :: "thread list" where
  "eager = [T_Start, T_Start, T_Start, T_Start, T_Start, T_memberMonitor, T_Start]"

section \<open>Properties\<close>

subsection \<open>Auxiliary facts\<close>

lemma Seconds_exact: "Seconds d = of_int d / 1000000000"
proof -
  have "real_of_int d = real_of_int (d sdiv Second * Second + d smod Second)"
    by (simp only: sdiv_mult_smod_eq)
  also have "\<dots> = real_of_int (d sdiv Second) * 1000000000 + real_of_int (d smod Second)"
    by (simp add: Second_def)
  finally show ?thesis by (simp add: Seconds_def field_simps)
qed





lemma actions_distinct [simp]:
  "CREATE \<noteq> NOOP" "UPDATE \<noteq> NOOP" "STOP \<noteq> START" "CREATE \<noteq> UPDATE"
  "UPDATE \<noteq> CREATE" "NOOP \<noteq> CREATE" "NOOP \<noteq> UPDATE"
  by (simp_all add: CREATE_def UPDATE_def NOOP_def START_def STOP_def)

lemma director_writes_Nil [simp]: "director_writes [] = []"
  by (simp add: director_writes_def)

lemma director_writes_Cons [simp]:
  "director_writes (e # es) =
     (case e of Dal c r \<Rightarrow> if is_director_write c then [c] else [] | _ \<Rightarrow> [])
       @ director_writes es"
  by (cases e) (simp_all add: director_writes_def)

text \<open>\<open>updateState\<close>, branch by branch, in terms of what the environment answers.\<close>

lemma updateState_effect:
  fixes env :: "'w Env" and s :: "'w Sys" and prev :: "DirectorJSON option"
  defines "t \<equiv> fst (time_Now env (world s))" and "w1 \<equiv> snd (time_Now env (world s))"
  defines "m \<equiv> json_Marshal_Director env
                  (Some \<lparr>D_MemberID = MemberID (cluster s), D_LastUpdate = t\<rparr>)"
  defines "pm \<equiv> json_Marshal_Director env prev"
  defines "u \<equiv> dal_UpdateDirectorState env (fst m) (fst pm) False w1"
  defines "c \<equiv> dal_CreateDirectorState env (fst m) w1"
  shows "updateState env prev a s =
    (if a \<noteq> CREATE \<and> a \<noteq> UPDATE
     then (Error (''Unrecognized etcdAction '' @ [CHR 0x27] @ fmt_Int env a
                     @ [CHR 0x27] @ '' (bug?)''), s)
     else if snd m \<noteq> None
     then (Error (''Unable to marshal new director state blob: '' @ the (snd m)),
           s\<lparr>world := w1\<rparr>)
     else if a = UPDATE
     then
       (if snd pm \<noteq> None then (Panic, s\<lparr>world := w1\<rparr>)
        else
          (case fst u of
             None \<Rightarrow> OK
           | Some e \<Rightarrow> Error (''Unable to update director state in dal: '' @ e),
           s\<lparr>world := snd u,
             trace := trace s @ [Dal (Dal_UpdateDirectorState (fst m) (fst pm) False) (fst u)]\<rparr>))
     else
       (case fst c of
          None \<Rightarrow> OK
        | Some e \<Rightarrow> Error (''Unable to create director state in dal: '' @ e),
        s\<lparr>world := snd c, trace := trace s @ [Dal (Dal_CreateDirectorState (fst m)) (fst c)]\<rparr>))"
proof (cases "time_Now env (world s)")
  case tn: (Pair t' w')
  then have [simp]: "t = t'" "w1 = w'" by (simp_all add: t_def w1_def)
  obtain data merr where mm: "json_Marshal_Director env
      (Some \<lparr>D_MemberID = MemberID (cluster s), D_LastUpdate = t'\<rparr>) = (data, merr)"
    by (cases "json_Marshal_Director env
      (Some \<lparr>D_MemberID = MemberID (cluster s), D_LastUpdate = t'\<rparr>)")
  then have [simp]: "m = (data, merr)" by (simp add: m_def)
  obtain prevData perr where pm': "json_Marshal_Director env prev = (prevData, perr)"
    by (cases "json_Marshal_Director env prev")
  then have [simp]: "pm = (prevData, perr)" by (simp add: pm_def)
  obtain uerr uw where uu: "dal_UpdateDirectorState env data prevData False w' = (uerr, uw)"
    by (cases "dal_UpdateDirectorState env data prevData False w'")
  then have [simp]: "u = (uerr, uw)" by (simp add: u_def)
  obtain cerr cw where cc: "dal_CreateDirectorState env data w' = (cerr, cw)"
    by (cases "dal_CreateDirectorState env data w'")
  then have [simp]: "c = (cerr, cw)" by (simp add: c_def)
  show ?thesis
    by (cases merr; cases perr; cases uerr; cases cerr)
       (simp_all add: updateState_def now_def dalcall_def tn mm pm' uu cc)
qed


lemma getState_snd:
  "snd (getState env s) =
     s\<lparr>world := snd (dal_Get env DIRECTOR_KEY (world s)),
       trace := trace s @
         [Dal (Dal_Get DIRECTOR_KEY) (snd (fst (dal_Get env DIRECTOR_KEY (world s))))]\<rparr>"
proof (cases "dal_Get env DIRECTOR_KEY (world s)")
  case (Pair r w')
  obtain data err where "r = (data, err)" by (cases r)
  with Pair show ?thesis
    by (simp add: getState_def dalcall_def split: option.splits prod.splits)
qed

lemma getState_observed:
  assumes "fst (getState env s) = (Some d, None)"
  shows "snd (fst (dal_Get env DIRECTOR_KEY (world s))) = None"
proof (cases "dal_Get env DIRECTOR_KEY (world s)")
  case (Pair r w')
  obtain data err where "r = (data, err)" by (cases r)
  with Pair assms show ?thesis
    by (simp add: getState_def dalcall_def split: option.splits prod.splits if_splits)
qed



lemma go_int_Seconds: "go_int (Seconds d) = d sdiv Second"
proof -
  have S: "(1000000000::real) = of_int Second" by (simp add: Second_def)
  have pos: "(0 \<le> real_of_int d / of_int Second) = (0 \<le> d)"
    by (simp add: Second_def zero_le_divide_iff)
  show ?thesis
  proof (cases "0 \<le> d")
    case True
    then have "d sdiv Second = d div Second"
      by (simp add: signed_divide_int_def Second_def sgn_if)
    with True show ?thesis
      unfolding go_int_def Seconds_exact S pos floor_divide_of_int_eq by simp
  next
    case False
    then have "d sdiv Second = - (- d div Second)"
      by (simp add: signed_divide_int_def Second_def sgn_if)
    with False show ?thesis
      unfolding go_int_def Seconds_exact S pos ceiling_divide_eq_div by simp
  qed
qed

lemma path_Base_config: "path_Base (k @ ''/config'') = ''config''"
  by (simp add: path_Base_def)





lemma initial_launch_order: "initial p \<Longrightarrow> launch_order p"
  by (simp add: initial_def launch_order_def)

lemma step_directorMonitor_frame:
  assumes "step_directorMonitor env p = Some p'"
  shows "pc_Start p' = pc_Start p \<and> pc_memberHeartbeat p' = pc_memberHeartbeat p \<and>
         pc_memberMonitor p' = pc_memberMonitor p \<and> initFinished p' = initFinished p"
proof -
  obtain r s1 where "directorMonitorTick env (sys p) = (r, s1)"
    by (cases "directorMonitorTick env (sys p)")
  with assms show ?thesis
    by (cases r) (auto simp: step_directorMonitor_def split: if_splits)
qed

lemma step_directorHeartbeat_frame:
  assumes "step_directorHeartbeat env p = Some p'"
  shows "pc_Start p' = pc_Start p \<and> pc_memberHeartbeat p' = pc_memberHeartbeat p \<and>
         pc_memberMonitor p' = pc_memberMonitor p \<and> initFinished p' = initFinished p"
  using assms by (auto simp: step_directorHeartbeat_def split: if_splits)

lemma step_memberMonitor_frame:
  assumes "step_memberMonitor env p = Some p'"
  shows "pc_Start p' = pc_Start p \<and> pc_memberHeartbeat p' = pc_memberHeartbeat p \<and>
         pc_memberMonitor p \<noteq> M_not_started \<and> initFinished p' = initFinished p"
proof -
  obtain l s1 where "memberMonitorIteration env (sys p) = (l, s1)"
    by (cases "memberMonitorIteration env (sys p)")
  with assms show ?thesis
    by (cases "pc_memberMonitor p"; cases l) (auto simp: step_memberMonitor_def)
qed

lemma step_memberHeartbeat_frame:
  assumes "step_memberHeartbeat env p = Some p'"
  shows "pc_Start p' = pc_Start p \<and> pc_memberMonitor p' = pc_memberMonitor p \<and>
         pc_memberHeartbeat p \<noteq> H_not_started \<and>
         (pc_memberHeartbeat p = H_create \<and> pc_memberHeartbeat p' = H_create \<and>
            initFinished p' = initFinished p \<or>
          pc_memberHeartbeat p = H_create \<and> pc_memberHeartbeat p' = H_send_initFinished \<and>
            initFinished p' = initFinished p \<and>
            createInitialMemberStructure env (memberDir_of (cluster (sys p)))
              (heartbeatTimeoutInt_of (cluster (sys p))) (sys p) = (None, sys p') \<or>
          pc_memberHeartbeat p = H_send_initFinished \<and> pc_memberHeartbeat p' = H_loop \<and>
            initFinished p = [] \<or>
          pc_memberHeartbeat p = H_loop \<and> pc_memberHeartbeat p' = H_loop \<and>
            initFinished p' = initFinished p)"
proof -
  obtain r s1 where "createInitialMemberStructure env (memberDir_of (cluster (sys p)))
              (heartbeatTimeoutInt_of (cluster (sys p))) (sys p) = (r, s1)"
    by (cases "createInitialMemberStructure env (memberDir_of (cluster (sys p)))
              (heartbeatTimeoutInt_of (cluster (sys p))) (sys p)")
  with assms show ?thesis
    by (cases "pc_memberHeartbeat p"; cases r)
       (auto simp: step_memberHeartbeat_def Let_def split: if_splits)
qed

lemma step_Start_frame:
  assumes "step_Start p = Some p'"
  shows "pc_Start p = S_go_directorMonitor \<and> pc_Start p' = S_go_directorHeartbeat \<and>
           pc_memberHeartbeat p' = pc_memberHeartbeat p \<and>
           pc_memberMonitor p' = pc_memberMonitor p \<and> initFinished p' = initFinished p \<or>
         pc_Start p = S_go_directorHeartbeat \<and> pc_Start p' = S_go_memberHeartbeat \<and>
           pc_memberHeartbeat p' = pc_memberHeartbeat p \<and>
           pc_memberMonitor p' = pc_memberMonitor p \<and> initFinished p' = initFinished p \<or>
         pc_Start p = S_go_memberHeartbeat \<and> pc_Start p' = S_receive_initFinished \<and>
           pc_memberHeartbeat p' = H_create \<and>
           pc_memberMonitor p' = pc_memberMonitor p \<and> initFinished p' = initFinished p \<or>
         pc_Start p = S_receive_initFinished \<and> pc_Start p' = S_go_memberMonitor \<and>
           pc_memberHeartbeat p' = pc_memberHeartbeat p \<and>
           pc_memberMonitor p' = pc_memberMonitor p \<and> initFinished p \<noteq> [] \<or>
         pc_Start p = S_go_memberMonitor \<and> pc_Start p' = S_returned \<and>
           pc_memberHeartbeat p' = pc_memberHeartbeat p \<and>
           pc_memberMonitor p' = M_new_watcher \<and> initFinished p' = initFinished p"
  using assms
  by (cases "pc_Start p"; cases "initFinished p") (auto simp: step_Start_def)

lemma step_launch_order:
  assumes "launch_order p" and "step env t p = Some p'"
  shows "launch_order p'"
proof (cases t)
  case T_Start
  with assms(2) have "step_Start p = Some p'"
    by (simp add: step_def split: if_splits)
  from step_Start_frame[OF this] assms(1) show ?thesis
    unfolding launch_order_def by (elim disjE conjE) simp_all
next
  case T_directorMonitor
  with assms(2) have "step_directorMonitor env p = Some p'"
    by (simp add: step_def split: if_splits)
  from step_directorMonitor_frame[OF this] assms(1) show ?thesis
    by (simp add: launch_order_def)
next
  case T_directorHeartbeat
  with assms(2) have "step_directorHeartbeat env p = Some p'"
    by (simp add: step_def split: if_splits)
  from step_directorHeartbeat_frame[OF this] assms(1) show ?thesis
    by (simp add: launch_order_def)
next
  case T_memberHeartbeat
  with assms(2) have "step_memberHeartbeat env p = Some p'"
    by (simp add: step_def split: if_splits)
  from step_memberHeartbeat_frame[OF this] assms(1) show ?thesis
    unfolding launch_order_def by (elim disjE conjE) auto
next
  case T_memberMonitor
  with assms(2) have "step_memberMonitor env p = Some p'"
    by (simp add: step_def split: if_splits)
  from step_memberMonitor_frame[OF this] assms(1) show ?thesis
    unfolding launch_order_def by (elim conjE) auto
qed

lemma run_launch_order:
  "launch_order p \<Longrightarrow> q \<in> set (run env sched p) \<Longrightarrow> launch_order q"
proof (induction sched arbitrary: p)
  case Nil
  then show ?case by simp
next
  case (Cons t ts)
  show ?case
  proof (cases "step env t p")
    case None
    with Cons show ?thesis by auto
  next
    case (Some p')
    have "launch_order p'" by (rule step_launch_order[OF Cons.prems(1) Some])
    with Cons Some show ?thesis by auto
  qed
qed

lemma run_nonempty: "run env sched p \<noteq> []"
  by (cases sched) simp_all

lemma run_first: "run env sched p ! 0 = p"
  by (cases sched) simp_all

lemma step_creation:
  assumes "step env t p = Some p'"
    and "pc_memberHeartbeat p \<in> {H_not_started, H_create}"
    and "pc_memberHeartbeat p' \<notin> {H_not_started, H_create}"
  shows "pc_memberHeartbeat p = H_create \<and> pc_memberHeartbeat p' = H_send_initFinished \<and>
         createInitialMemberStructure env (memberDir_of (cluster (sys p)))
           (heartbeatTimeoutInt_of (cluster (sys p))) (sys p) = (None, sys p')"
proof (cases t)
  case T_Start
  with assms(1) have "step_Start p = Some p'"
    by (simp add: step_def split: if_splits)
  from step_Start_frame[OF this] assms(2,3) show ?thesis
    by (elim disjE conjE) simp_all
next
  case T_directorMonitor
  with assms(1) have "step_directorMonitor env p = Some p'"
    by (simp add: step_def split: if_splits)
  from step_directorMonitor_frame[OF this] assms(2,3) show ?thesis
    by simp
next
  case T_directorHeartbeat
  with assms(1) have "step_directorHeartbeat env p = Some p'"
    by (simp add: step_def split: if_splits)
  from step_directorHeartbeat_frame[OF this] assms(2,3) show ?thesis
    by simp
next
  case T_memberHeartbeat
  with assms(1) have "step_memberHeartbeat env p = Some p'"
    by (simp add: step_def split: if_splits)
  from step_memberHeartbeat_frame[OF this] assms(2,3) show ?thesis
    by (elim disjE conjE) simp_all
next
  case T_memberMonitor
  with assms(1) have "step_memberMonitor env p = Some p'"
    by (simp add: step_def split: if_splits)
  from step_memberMonitor_frame[OF this] assms(2,3) show ?thesis
    by simp
qed

lemma creation_completes_at_Cons:
  "creation_completes_at env ps i \<Longrightarrow> creation_completes_at env (p # ps) (Suc i)"
  by (simp add: creation_completes_at_def)

lemma creation_before:
  assumes "pc_memberHeartbeat p \<in> {H_not_started, H_create}"
    and "j < length (run env sched p)"
    and "pc_memberHeartbeat (run env sched p ! j) \<notin> {H_not_started, H_create}"
  shows "\<exists>i<j. creation_completes_at env (run env sched p) i"
  using assms
proof (induction sched arbitrary: p j)
  case Nil
  then show ?case by simp
next
  case (Cons t ts)
  define p' where "p' = (case step env t p of None \<Rightarrow> p | Some q \<Rightarrow> q)"
  have r: "run env (t # ts) p = p # run env ts p'"
    by (simp add: p'_def)
  from Cons.prems obtain k where j: "j = Suc k"
    by (cases j) (auto simp: r simp del: run.simps)
  with Cons.prems r have k: "k < length (run env ts p')"
    and kk: "pc_memberHeartbeat (run env ts p' ! k) \<notin> {H_not_started, H_create}"
    by (simp_all del: run.simps)
  show ?case
  proof (cases "pc_memberHeartbeat p' \<in> {H_not_started, H_create}")
    case True
    from Cons.IH[OF True k kk] obtain i where "i < k"
      and "creation_completes_at env (run env ts p') i" by blast
    then have "Suc i < j" and "creation_completes_at env (run env (t # ts) p) (Suc i)"
      using j r by (simp_all add: creation_completes_at_Cons del: run.simps)
    then show ?thesis by blast
  next
    case False
    with Cons.prems(1) have "p' \<noteq> p" by auto
    then obtain q where s: "step env t p = Some q" and q: "p' = q"
      by (cases "step env t p") (auto simp: p'_def)
    from step_creation[OF s Cons.prems(1)] False q
    have "pc_memberHeartbeat p = H_create" "pc_memberHeartbeat p' = H_send_initFinished"
      "createInitialMemberStructure env (memberDir_of (cluster (sys p)))
           (heartbeatTimeoutInt_of (cluster (sys p))) (sys p) = (None, sys p')"
      by simp_all
    then have "creation_completes_at env (run env (t # ts) p) 0"
      using run_nonempty[of env ts p'] run_first[of env ts p']
      by (simp add: creation_completes_at_def r del: run.simps)
    with j show ?thesis by blast
  qed
qed

lemma run_orderly:
  "run quiet orderly boot =
     [boot,
      boot\<lparr>directorMonitor_started := True, pc_Start := S_go_directorHeartbeat\<rparr>,
      boot\<lparr>directorMonitor_started := True, directorHeartbeat_started := True,
           pc_Start := S_go_memberHeartbeat\<rparr>,
      boot\<lparr>directorMonitor_started := True, directorHeartbeat_started := True,
           pc_memberHeartbeat := H_create, pc_Start := S_receive_initFinished\<rparr>,
      boot\<lparr>sys := snd (createInitialMemberStructure quiet ''cluster/members/A'' 5 node_A),
           directorMonitor_started := True, directorHeartbeat_started := True,
           pc_memberHeartbeat := H_send_initFinished, pc_Start := S_receive_initFinished\<rparr>,
      boot\<lparr>sys := emit (InitFinished True)
                    (snd (createInitialMemberStructure quiet ''cluster/members/A'' 5 node_A)),
           directorMonitor_started := True, directorHeartbeat_started := True,
           pc_memberHeartbeat := H_loop, pc_Start := S_receive_initFinished,
           initFinished := [True]\<rparr>,
      boot\<lparr>sys := emit (InitFinished True)
                    (snd (createInitialMemberStructure quiet ''cluster/members/A'' 5 node_A)),
           directorMonitor_started := True, directorHeartbeat_started := True,
           pc_memberHeartbeat := H_loop, pc_Start := S_go_memberMonitor\<rparr>,
      boot\<lparr>sys := emit (InitFinished True)
                    (snd (createInitialMemberStructure quiet ''cluster/members/A'' 5 node_A)),
           directorMonitor_started := True, directorHeartbeat_started := True,
           pc_memberHeartbeat := H_loop, pc_Start := S_returned,
           pc_memberMonitor := M_new_watcher\<rparr>]"
  by (simp add: orderly_def boot_def step_def step_Start_def step_memberHeartbeat_def
        createInitialMemberStructure_def generateMemberJSON_def now_def dalcall_def emit_def
        memberDir_of_def heartbeatTimeoutInt_of_def go_int_Seconds Second_def
        signed_divide_int_def quiet_def double_def node_A_def Let_def)

subsection \<open>The role state machine\<close>



text \<open>
  C2. When the observed record names another member while \<open>DirectorState\<close> is true,
  \<open>handleState\<close> returns \<open>nil\<close>, sets \<open>DirectorState\<close> to false and sends \<open>false\<close> on
  \<open>StateChan\<close>; it calls no store method, and the world behind the store is the one it
  started from. The whole tick adds only the \<open>Get\<close> of its observation.
\<close>

theorem handleState_STOP:
  assumes "D_MemberID d \<noteq> MemberID (cluster s)" and "DirectorState (cluster s)"
  shows "handleState env (Some d) s =
           (OK, s\<lparr>cluster := (cluster s)\<lparr>DirectorState := False\<rparr>,
                   trace := trace s @ [StateChan False]\<rparr>) \<and>
         (fst (getState env s) = (Some d, None) \<longrightarrow>
            directorMonitorTick env s =
              (OK, s\<lparr>cluster := (cluster s)\<lparr>DirectorState := False\<rparr>,
                      world := snd (dal_Get env DIRECTOR_KEY (world s)),
                      trace := trace s @ [Dal (Dal_Get DIRECTOR_KEY) None, StateChan False]\<rparr>))"
proof (intro conjI impI)
  show "handleState env (Some d) s =
           (OK, s\<lparr>cluster := (cluster s)\<lparr>DirectorState := False\<rparr>,
                   trace := trace s @ [StateChan False]\<rparr>)"
    using assms
    by (simp add: handleState_def amDirector_def changeState_def setDirectorState_def emit_def)
next
  assume g: "fst (getState env s) = (Some d, None)"
  obtain s1 where gs: "getState env s = ((Some d, None), s1)"
    using g by (cases "getState env s") auto
  have s1: "s1 = s\<lparr>world := snd (dal_Get env DIRECTOR_KEY (world s)),
       trace := trace s @ [Dal (Dal_Get DIRECTOR_KEY) None]\<rparr>"
    using getState_observed[OF g] getState_snd[of env s] by (simp add: gs)
  have "handleState env (Some d) s1 =
      (OK, s1\<lparr>cluster := (cluster s1)\<lparr>DirectorState := False\<rparr>,
                   trace := trace s1 @ [StateChan False]\<rparr>)"
    using assms
    by (simp add: s1 handleState_def amDirector_def changeState_def setDirectorState_def
          emit_def)
  then have "directorMonitorTick env s =
      (OK, s1\<lparr>cluster := (cluster s1)\<lparr>DirectorState := False\<rparr>,
                   trace := trace s1 @ [StateChan False]\<rparr>)"
    by (simp add: directorMonitorTick_def gs)
  then show "directorMonitorTick env s =
              (OK, s\<lparr>cluster := (cluster s)\<lparr>DirectorState := False\<rparr>,
                      world := snd (dal_Get env DIRECTOR_KEY (world s)),
                      trace := trace s @ [Dal (Dal_Get DIRECTOR_KEY) None, StateChan False]\<rparr>)"
    by (simp add: s1)
qed

theorem handleState_STOP_witness:
  "D_MemberID \<lparr>D_MemberID = ''B'', D_LastUpdate = 0\<rparr> \<noteq> MemberID (cluster director_A) \<and>
   DirectorState (cluster director_A) \<and>
   handleState quiet (Some \<lparr>D_MemberID = ''B'', D_LastUpdate = 0\<rparr>) director_A =
     (OK, node_A\<lparr>trace := [StateChan False]\<rparr>) \<and>
   directorMonitorTick
       (double ([DIRECTOR_KEY \<mapsto> ''B''], None) False (\<lambda>c. None) (None, None)) director_A =
     (OK, node_A\<lparr>trace := [Dal (Dal_Get DIRECTOR_KEY) None, StateChan False]\<rparr>)"
proof -
  let ?env = "double ([DIRECTOR_KEY \<mapsto> ''B''], None) False (\<lambda>c. None) (None, None)"
  let ?d = "\<lparr>D_MemberID = ''B'', D_LastUpdate = 0\<rparr>"
  have a: "D_MemberID ?d \<noteq> MemberID (cluster director_A)"
    and b: "DirectorState (cluster director_A)"
    by (simp_all add: director_A_def node_A_def)
  have g: "fst (getState ?env director_A) = (Some ?d, None)"
    by (simp add: getState_def dalcall_def double_def)
  show ?thesis
    using a b handleState_STOP[OF a b, of quiet] handleState_STOP[OF a b, of ?env] g
    by (simp add: director_A_def node_A_def double_def)
qed

text \<open>
  C5. A START transition with the etcd action NOOP sets \<open>DirectorState\<close> and sends
  \<open>true\<close> on \<open>StateChan\<close> at once. With any other etcd action it ends in one of three
  ways: the write to \<open>cluster/director\<close> returned no error, and then \<open>DirectorState\<close>
  is set and \<open>true\<close> is sent on \<open>StateChan\<close> after the write; or the write returned an
  error, and then that error is returned, wrapped, nothing is sent and the cluster
  object is unchanged; or no write was made, an error or a panic is the result, and
  again nothing is sent and the cluster object is unchanged.
\<close>

theorem changeState_START:
  "changeState env START prev NOOP s =
      (OK, s\<lparr>cluster := (cluster s)\<lparr>DirectorState := True\<rparr>,
              trace := trace s @ [StateChan True]\<rparr>) \<and>
   (a \<noteq> NOOP \<longrightarrow>
      (case changeState env START prev a s of
         (r, s') \<Rightarrow>
           (\<exists>c. is_director_write c \<and> r = OK \<and>
                trace s' = trace s @ [Dal c None, StateChan True] \<and>
                cluster s' = (cluster s)\<lparr>DirectorState := True\<rparr>) \<or>
           (\<exists>c e. is_director_write c \<and>
                r = Error (''Unable to update director state: Unable to ''
                           @ (if a = UPDATE then ''update'' else ''create'')
                           @ '' director state in dal: '' @ e) \<and>
                trace s' = trace s @ [Dal c (Some e)] \<and> cluster s' = cluster s) \<or>
           (r \<noteq> OK \<and> trace s' = trace s \<and> cluster s' = cluster s)))"
proof (intro conjI impI)
  show "changeState env START prev NOOP s =
      (OK, s\<lparr>cluster := (cluster s)\<lparr>DirectorState := True\<rparr>,
              trace := trace s @ [StateChan True]\<rparr>)"
    by (simp add: changeState_def setDirectorState_def emit_def)
next
  assume "a \<noteq> NOOP"
  then show "case changeState env START prev a s of
         (r, s') \<Rightarrow>
           (\<exists>c. is_director_write c \<and> r = OK \<and>
                trace s' = trace s @ [Dal c None, StateChan True] \<and>
                cluster s' = (cluster s)\<lparr>DirectorState := True\<rparr>) \<or>
           (\<exists>c e. is_director_write c \<and>
                r = Error (''Unable to update director state: Unable to ''
                           @ (if a = UPDATE then ''update'' else ''create'')
                           @ '' director state in dal: '' @ e) \<and>
                trace s' = trace s @ [Dal c (Some e)] \<and> cluster s' = cluster s) \<or>
           (r \<noteq> OK \<and> trace s' = trace s \<and> cluster s' = cluster s)"
    by (auto simp add: changeState_def updateState_effect setDirectorState_def emit_def
          split: option.splits intro: is_director_write.simps)
qed

theorem changeState_START_witness:
  "CREATE \<noteq> NOOP \<and>
   changeState quiet START None CREATE node_A =
     (OK, node_A\<lparr>cluster := (cluster node_A)\<lparr>DirectorState := True\<rparr>, world := 10000000001,
                 trace := [Dal (Dal_CreateDirectorState ''A'') None, StateChan True]\<rparr>) \<and>
   changeState rejecting START None CREATE node_A =
     (Error (''Unable to update director state: Unable to create director state in dal: ''
               @ ''105: Key already exists''),
      node_A\<lparr>world := 10000000001,
             trace := [Dal (Dal_CreateDirectorState ''A'') (Some ''105: Key already exists'')]\<rparr>) \<and>
   changeState rejecting START None NOOP node_A =
     (OK, node_A\<lparr>cluster := (cluster node_A)\<lparr>DirectorState := True\<rparr>,
                 trace := [StateChan True]\<rparr>)"
  using changeState_START[of quiet None node_A CREATE]
    changeState_START[of rejecting None node_A CREATE]
  by (simp add: changeState_def updateState_effect setDirectorState_def emit_def
        quiet_def rejecting_def double_def node_A_def)

subsection \<open>Observation\<close>

text \<open>
  C3, as the code has it. When the store reports key-not-found, \<open>getState\<close> returns a
  nil record and a nil error. When the \<open>Get\<close> succeeds and the map it returns has no
  entry for the director key, \<open>getState\<close> returns a nil record and the error
  ``Uhh, no 'director' entry in map? Seems like a bug''; the tick records that error in
  the event queue and does nothing else.
\<close>

theorem getState_missing_director:
  assumes "dal_Get env DIRECTOR_KEY (world s) = ((data, err), w')"
  shows "(dal_IsKeyNotFound env err \<longrightarrow> fst (getState env s) = (None, None)) \<and>
         (\<not> dal_IsKeyNotFound env err \<and> err = None \<and> data DIRECTOR_KEY = None \<longrightarrow>
            fst (getState env s) = (None, Some no_director_entry) \<and>
            directorMonitorTick env s =
              (OK, s\<lparr>world := w',
                      trace := trace s @
                        [Dal (Dal_Get DIRECTOR_KEY) None,
                         EQ_Error (Identifier (cluster s)
                           @ ''-directorMonitor: Unable to fetch director state: ''
                           @ no_director_entry)]\<rparr>))"
  using assms
  by (auto simp add: getState_def directorMonitorTick_def dalcall_def emit_def)

theorem getState_missing_director_witness:
  "fst (getState quiet node_A) = (None, None) \<and>
   fst (getState rejecting node_A) = (None, Some no_director_entry)"
  using getState_missing_director[of quiet node_A Map.empty "Some ''100: Key not found''" 10000000000]
    getState_missing_director[of rejecting node_A Map.empty None 10000000000]
  by (simp add: quiet_def rejecting_def double_def node_A_def)

text \<open>
  The claim as the specification words it fails where the map has no entry: the result
  is an error, not the absent observation.
\<close>

theorem getState_missing_entry_counterexample:
  "fst (dal_Get rejecting DIRECTOR_KEY (world node_A)) = (Map.empty, None) \<and>
   fst (getState rejecting node_A) \<noteq> (None, None)"
  by (simp add: getState_def dalcall_def rejecting_def double_def node_A_def)

subsection \<open>The director heartbeat\<close>





subsection \<open>The member monitor\<close>

text \<open>
  C4. While director, an iteration that receives a watch response sends \<open>true\<close> on
  \<open>DistributeChan\<close> exactly when the action is \<open>set\<close>, the node is a directory and
  the base name of its key is not \<open>config\<close>, or the action is \<open>expire\<close>; every other
  response adds the watch call to the trace and nothing else. (A \<open>set\<close> or \<open>expire\<close>
  response without a node is a nil dereference: the iteration crashes and sends nothing.)
  The base name of a member's \<open>config\<close> key is \<open>config\<close>, so a write to it sends
  nothing, and a \<open>status\<close> key is not a directory.
\<close>

theorem memberMonitorIteration_signal:
  assumes "DirectorState (cluster s)"
    and "watcher_Next env (world s) = ((Some r, None), w')"
  shows "memberMonitorIteration env s =
           (if (Action r = ''set'' \<or> Action r = ''expire'') \<and> Node r = None
            then Crash else Continue,
            s\<lparr>world := w',
              trace := trace s @ Dal Dal_WatcherNext None #
                (if Action r = ''set'' \<and>
                      (case Node r of
                         None \<Rightarrow> False
                       | Some n \<Rightarrow> N_Dir n \<and> path_Base (N_Key n) \<noteq> ''config'') \<or>
                    Action r = ''expire'' \<and> Node r \<noteq> None
                 then [DistributeChan True] else [])\<rparr>) \<and>
         path_Base (k @ ''/config'') = ''config''"
  using assms
  by (cases "Node r")
     (simp_all add: memberMonitorIteration_def amDirector_def dalcall_def emit_def
        path_Base_config)

theorem memberMonitorIteration_signal_witness:
  "memberMonitorIteration
     (watching \<lparr>Action = ''set'', Node = Some \<lparr>N_Key = ''cluster/members/B'', N_Dir = True\<rparr>\<rparr>)
     director_A
     = (Continue, director_A\<lparr>trace := [Dal Dal_WatcherNext None, DistributeChan True]\<rparr>) \<and>
   memberMonitorIteration
     (watching \<lparr>Action = ''set'',
                Node = Some \<lparr>N_Key = ''cluster/members/B/status'', N_Dir = False\<rparr>\<rparr>)
     director_A
     = (Continue, director_A\<lparr>trace := [Dal Dal_WatcherNext None]\<rparr>) \<and>
   memberMonitorIteration
     (watching \<lparr>Action = ''set'',
                Node = Some \<lparr>N_Key = ''cluster/members/B/config'', N_Dir = True\<rparr>\<rparr>)
     director_A
     = (Continue, director_A\<lparr>trace := [Dal Dal_WatcherNext None]\<rparr>) \<and>
   memberMonitorIteration
     (watching \<lparr>Action = ''expire'', Node = Some \<lparr>N_Key = ''cluster/members/B'', N_Dir = True\<rparr>\<rparr>)
     director_A
     = (Continue, director_A\<lparr>trace := [Dal Dal_WatcherNext None, DistributeChan True]\<rparr>) \<and>
   memberMonitorIteration
     (watching \<lparr>Action = ''update'', Node = Some \<lparr>N_Key = ''cluster/members/B'', N_Dir = True\<rparr>\<rparr>)
     director_A
     = (Continue, director_A\<lparr>trace := [Dal Dal_WatcherNext None]\<rparr>)"
proof -
  have d: "DirectorState (cluster director_A)"
    by (simp add: director_A_def node_A_def)
  have w: "watcher_Next (watching r) (world director_A) = ((Some r, None), 10000000000)" for r
    by (simp add: watching_def double_def director_A_def node_A_def)
  have b: "path_Base ''cluster/members/B'' = ''B''"
    "path_Base ''cluster/members/B/status'' = ''status''"
    by (simp_all add: path_Base_def)
  show ?thesis
    using memberMonitorIteration_signal[OF d w, of "\<lparr>Action = ''set'', Node = Some \<lparr>N_Key = ''cluster/members/B'', N_Dir = True\<rparr>\<rparr>" "''cluster/members/B''"]
      memberMonitorIteration_signal[OF d w, of "\<lparr>Action = ''set'', Node = Some \<lparr>N_Key = ''cluster/members/B/status'', N_Dir = False\<rparr>\<rparr>" "''cluster/members/B''"]
      memberMonitorIteration_signal[OF d w, of "\<lparr>Action = ''set'', Node = Some \<lparr>N_Key = ''cluster/members/B/config'', N_Dir = True\<rparr>\<rparr>" "''cluster/members/B''"]
      memberMonitorIteration_signal[OF d w, of "\<lparr>Action = ''expire'', Node = Some \<lparr>N_Key = ''cluster/members/B'', N_Dir = True\<rparr>\<rparr>" "''cluster/members/B''"]
      memberMonitorIteration_signal[OF d w, of "\<lparr>Action = ''update'', Node = Some \<lparr>N_Key = ''cluster/members/B'', N_Dir = True\<rparr>\<rparr>" "''cluster/members/B''"]
    by (simp add: b director_A_def node_A_def)
qed

subsection \<open>The member heartbeat\<close>






subsection \<open>Start\<close>

text \<open>
  C6. Take any schedule of the goroutines from the state in which \<open>Start\<close> is entered.
  At every position where the member monitor has been launched, \<open>Start\<close> has returned,
  the member heartbeat is in its loop (it has sent on \<open>initFinished\<close>), and at a strictly
  earlier position \<open>createInitialMemberStructure\<close> was called by the member heartbeat
  and returned \<open>nil\<close>.
\<close>

theorem memberMonitor_after_creation:
  assumes "initial p0" and "j < length (run env sched p0)"
    and "pc_memberMonitor (run env sched p0 ! j) \<noteq> M_not_started"
  shows "pc_Start (run env sched p0 ! j) = S_returned \<and>
         pc_memberHeartbeat (run env sched p0 ! j) = H_loop \<and>
         (\<exists>i<j. creation_completes_at env (run env sched p0) i)"
proof -
  let ?q = "run env sched p0 ! j"
  have "?q \<in> set (run env sched p0)"
    using assms(2) by simp
  then have "launch_order ?q"
    using initial_launch_order[OF assms(1)] run_launch_order by blast
  with assms(3) have pcs: "pc_Start ?q = S_returned" "pc_memberHeartbeat ?q = H_loop"
    by (simp_all add: launch_order_def)
  moreover have "pc_memberHeartbeat p0 \<in> {H_not_started, H_create}"
    using assms(1) by (simp add: initial_def)
  then have "\<exists>i<j. creation_completes_at env (run env sched p0) i"
    using assms(2) pcs(2) by (intro creation_before) simp_all
  ultimately show ?thesis by simp
qed


theorem memberMonitor_after_creation_witness:
  "initial boot \<and> 7 < length (run quiet orderly boot) \<and>
   pc_memberMonitor (run quiet orderly boot ! 7) \<noteq> M_not_started \<and>
   pc_Start (run quiet orderly boot ! 7) = S_returned \<and>
   pc_memberHeartbeat (run quiet orderly boot ! 7) = H_loop \<and>
   (\<exists>i<7. creation_completes_at quiet (run quiet orderly boot) i) \<and>
   pc_Start (last (run quiet eager boot)) = S_receive_initFinished \<and>
   pc_memberMonitor (last (run quiet eager boot)) = M_not_started"
proof -
  have i: "initial boot"
    by (simp add: initial_def boot_def)
  have l: "7 < length (run quiet orderly boot)"
    by (simp add: run_orderly)
  have m: "pc_memberMonitor (run quiet orderly boot ! 7) \<noteq> M_not_started"
    by (simp add: run_orderly)
  have e: "pc_Start (last (run quiet eager boot)) = S_receive_initFinished \<and>
           pc_memberMonitor (last (run quiet eager boot)) = M_not_started"
    by (simp add: eager_def boot_def step_def step_Start_def step_memberMonitor_def)
  from memberMonitor_after_creation[OF i l m] i l m e show ?thesis
    by simp
qed

end
